theory Spec2Isabelle
  imports Complex_Main "HOL-Library.Multiset" "HOL-Library.Product_Lexorder"
begin

section \<open>LifeLink: the order lifecycle of \<^verbatim>\<open>app.py\<close>\<close>

text \<open>
  The Flask handlers of \<^verbatim>\<open>app.py\<close> read and write an SQLite database. A handler is
  modelled as a function from the database before the request (and the request's
  parameters) to the HTTP response and the database after it. A table is the list of its
  rows, a row is a record of its columns, and \<^verbatim>\<open>CURRENT_TIMESTAMP\<close> is the parameter
  \<open>now\<close> of the handler that evaluates it.
\<close>

subsection \<open>Tables\<close>

text \<open>
  SQLite's \<^verbatim>\<open>CURRENT_TIMESTAMP\<close> is the text \<^verbatim>\<open>YYYY-MM-DD HH:MM:SS\<close>, whose order as
  text is the order in time; a timestamp is modelled by a number with that order.
\<close>

type_synonym timestamp = int

record hospital =
  h_id :: int
  h_name :: string
  h_city :: string
  h_state :: string
  h_email :: string

record organ_listing =
  ol_id :: int
  ol_hospital_id :: int
  ol_hospital_name :: string
  ol_organ_type :: string
  ol_blood_type :: string
  ol_age :: int
  ol_weight_kg :: real
  ol_priority_status :: string
  ol_availability_status :: string
  ol_city :: string
  ol_state :: string
  ol_created_at :: timestamp

record transport_request =
  tr_id :: int
  tr_listing_id :: "int option"
  tr_hospital :: string
  tr_organ_type :: string
  tr_origin :: string
  tr_destination :: string
  tr_contact_phone :: string
  tr_notes :: string
  tr_priority_status :: string
  tr_status :: string
  tr_driver_id :: "int option"
  tr_created_at :: timestamp
  tr_updated_at :: timestamp

text \<open>The database: its tables, each in row order.\<close>

record db =
  t_hospitals :: "hospital list"
  t_organ_listings :: "organ_listing list"
  t_transport_requests :: "transport_request list"

subsection \<open>Responses\<close>

text \<open>
  What a handler returns: a rendered template with its status code, a plain text with its
  status code, a redirect to an endpoint with the id it carries, or \<^verbatim>\<open>abort(code, text)\<close>.
\<close>

datatype response =
    Rendered string nat
  | Plain string nat
  | Redirect string "int option"
  | Aborted nat string

fun status_code :: "response \<Rightarrow> nat" where
  "status_code (Rendered t c) = c"
| "status_code (Plain t c) = c"
| "status_code (Redirect e a) = 302"
| "status_code (Aborted c t) = c"

datatype http_method = GET | POST

subsection \<open>Queries by key\<close>

text \<open>
  \<^verbatim>\<open>query("SELECT * FROM t WHERE id = ?", (k,), one=True)\<close>: the first row with that
  id, or \<^verbatim>\<open>None\<close>.
\<close>

definition get_hospital :: "db \<Rightarrow> int \<Rightarrow> hospital option" where
  "get_hospital s k = find (\<lambda>h. h_id h = k) (t_hospitals s)"

definition get_listing :: "db \<Rightarrow> int \<Rightarrow> organ_listing option" where
  "get_listing s k = find (\<lambda>l. ol_id l = k) (t_organ_listings s)"

definition get_order :: "db \<Rightarrow> int \<Rightarrow> transport_request option" where
  "get_order s k = find (\<lambda>r. tr_id r = k) (t_transport_requests s)"

subsection \<open>Driver operations\<close>

text \<open>
  \<^verbatim>\<open>driver_has_active_order\<close>: \<^verbatim>\<open>SELECT COUNT(*) ... WHERE driver_id = ? AND status IN
  ('Assigned','En-route')\<close>, compared with 0. A row whose \<^verbatim>\<open>driver_id\<close> is NULL matches
  no driver.
\<close>

definition active_status :: "string \<Rightarrow> bool" where
  "active_status st = (st = ''Assigned'' \<or> st = ''En-route'')"

definition active_count :: "db \<Rightarrow> int \<Rightarrow> nat" where
  "active_count s driver_id =
     length (filter (\<lambda>r. tr_driver_id r = Some driver_id \<and> active_status (tr_status r))
               (t_transport_requests s))"

definition driver_has_active_order :: "db \<Rightarrow> int \<Rightarrow> bool" where
  "driver_has_active_order s driver_id = (active_count s driver_id > 0)"

text \<open>
  \<^verbatim>\<open>UPDATE transport_requests SET ... WHERE id = ?\<close>: every row with that id is
  rewritten, the others are kept, and the order of the rows does not change.
\<close>

definition update_requests ::
  "int \<Rightarrow> (transport_request \<Rightarrow> transport_request) \<Rightarrow> db \<Rightarrow> db" where
  "update_requests k f s =
     s\<lparr>t_transport_requests := map (\<lambda>r. if tr_id r = k then f r else r) (t_transport_requests s)\<rparr>"

text \<open>
  \<^verbatim>\<open>driver_claim\<close> (POST \<^verbatim>\<open>/driver-claim/<order_id>\<close>). The form value
  \<^verbatim>\<open>request.form.get("driver_id", type=int)\<close> is \<open>None\<close> when the field is missing or is
  not an integer; \<^verbatim>\<open>not driver_id\<close> also holds of the integer 0.
\<close>

definition driver_claim :: "db \<Rightarrow> int \<Rightarrow> int option \<Rightarrow> timestamp \<Rightarrow> response \<times> db" where
  "driver_claim s order_id driver_id now =
     (case driver_id of
        None \<Rightarrow> (Plain ''Driver required'' 400, s)
      | Some d \<Rightarrow>
          if d = 0 then (Plain ''Driver required'' 400, s)
          else if driver_has_active_order s d
            then (Plain ''Driver already has an active order'' 400, s)
          else (case get_order s order_id of
                  None \<Rightarrow> (Plain ''Order is no longer available'' 400, s)
                | Some order \<Rightarrow>
                    if tr_status order \<noteq> ''Requested''
                      then (Plain ''Order is no longer available'' 400, s)
                    else (Redirect ''driver_portal'' (Some d),
                          update_requests order_id
                            (\<lambda>r. r\<lparr>tr_driver_id := Some d, tr_status := ''Assigned'',
                                    tr_updated_at := now\<rparr>) s)))"

text \<open>
  \<^verbatim>\<open>driver_update_status\<close> (POST \<^verbatim>\<open>/driver-update-status/<order_id>\<close>). The form value
  \<^verbatim>\<open>request.form.get("status")\<close> is \<open>None\<close> when the field is missing; \<^verbatim>\<open>not new_status\<close>
  also holds of the empty text.
\<close>

definition allowed_statuses :: "string set" where
  "allowed_statuses = {''Requested'', ''Assigned'', ''En-route'', ''Delivered''}"

definition driver_update_status ::
  "db \<Rightarrow> int \<Rightarrow> int option \<Rightarrow> string option \<Rightarrow> timestamp \<Rightarrow> response \<times> db" where
  "driver_update_status s order_id driver_id new_status now =
     (case (driver_id, new_status) of
        (Some d, Some st) \<Rightarrow>
          if d = 0 \<or> st = [] then (Plain ''Driver and status are required'' 400, s)
          else (case get_order s order_id of
                  None \<Rightarrow> (Plain ''Order not found'' 404, s)
                | Some order \<Rightarrow>
                    if tr_status order = ''Delivered''
                      then (Plain ''Delivered orders cannot be modified'' 400, s)
                    else if st \<notin> allowed_statuses
                      then (Plain ''Invalid status'' 400, s)
                    else if st = ''Requested''
                      then (Redirect ''driver_portal'' (Some d),
                            update_requests order_id
                              (\<lambda>r. r\<lparr>tr_status := st, tr_driver_id := None,
                                      tr_updated_at := now\<rparr>) s)
                    else (Redirect ''driver_portal'' (Some d),
                          update_requests order_id
                            (\<lambda>r. r\<lparr>tr_status := st, tr_updated_at := now\<rparr>) s))
      | _ \<Rightarrow> (Plain ''Driver and status are required'' 400, s))"

subsection \<open>Text helpers\<close>

text \<open>
  A Python \<^verbatim>\<open>str\<close> is a sequence of code points. A \<open>char\<close> has 256 values, and here it
  stands for the code point of that number: a \<open>string\<close> is a text all of whose code points
  are below 256, and a text with any other code point is outside the model.

  \<^verbatim>\<open>str.strip()\<close> removes the white space at both ends. Below 256 the code points that
  Python counts as white space are the tab, line feed, vertical tab, form feed and carriage
  return (9 to 13), the separators 28 to 31, the space (32), the next-line control (133,
  U+0085) and the no-break space (160, U+00A0).
\<close>

definition is_space :: "char \<Rightarrow> bool" where
  "is_space c = ((of_char c :: nat) \<in> {9, 10, 11, 12, 13, 28, 29, 30, 31, 32, 133, 160})"

definition strip :: "string \<Rightarrow> string" where
  "strip t = rev (dropWhile is_space (rev (dropWhile is_space t)))"

text \<open>
  SQLite's \<^verbatim>\<open>lower()\<close> changes the letters A to Z only, and so does the comparison of
  letters by \<^verbatim>\<open>LIKE\<close>.
\<close>

definition sql_lower_char :: "char \<Rightarrow> char" where
  "sql_lower_char c =
     (case map_of (zip ''ABCDEFGHIJKLMNOPQRSTUVWXYZ'' ''abcdefghijklmnopqrstuvwxyz'') c of
        None \<Rightarrow> c
      | Some l \<Rightarrow> l)"

definition sql_lower :: "string \<Rightarrow> string" where
  "sql_lower t = map sql_lower_char t"

text \<open>
  Python's \<^verbatim>\<open>str.lower()\<close>. Below 256 the code points it changes are A to Z and the
  capital letters 192 to 222 of Latin-1 (all but the multiplication sign, 215), each to the
  code point 32 above it.
\<close>

definition lower_char :: "char \<Rightarrow> char" where
  "lower_char c =
     (let n = (of_char c :: nat)
      in if 192 \<le> n \<and> n \<le> 222 \<and> n \<noteq> 215 then char_of (n + 32) else sql_lower_char c)"

definition lower :: "string \<Rightarrow> string" where
  "lower t = map lower_char t"

text \<open>
  SQLite's \<^verbatim>\<open>text LIKE pattern\<close>: \<^verbatim>\<open>%\<close> stands for any run of characters, \<^verbatim>\<open>_\<close> for
  any one character, and any other character for itself, the letters A to Z in either
  case.
\<close>

fun like :: "string \<Rightarrow> string \<Rightarrow> bool" where
  "like [] [] = True"
| "like [] (c # cs) = False"
| "like (p # ps) [] = (p = CHR ''%'' \<and> like ps [])"
| "like (p # ps) (c # cs) =
     (if p = CHR ''%'' then like ps (c # cs) \<or> like (p # ps) cs
      else (p = CHR ''_'' \<or> sql_lower_char p = sql_lower_char c) \<and> like ps cs)"

definition get_or :: "string option \<Rightarrow> string \<Rightarrow> string" where
  "get_or v dflt = (case v of None \<Rightarrow> dflt | Some t \<Rightarrow> t)"

subsection \<open>The listing catalog\<close>

text \<open>
  \<^verbatim>\<open>organ_listings\<close> (GET \<^verbatim>\<open>/organ-listings\<close>). The three query parameters are
  optional. \<^verbatim>\<open>ORDER BY\<close> two keys is a sort by the pair of keys; SQL leaves the order of
  rows with equal keys open, and the model keeps them in table order.
\<close>

definition catalog_rank :: "string \<Rightarrow> nat" where
  "catalog_rank p =
     (if p = ''Emergency'' then 1 else if p = ''Critical'' then 2
      else if p = ''Urgent'' then 3 else 4)"

definition catalog_where :: "string \<Rightarrow> string \<Rightarrow> string \<Rightarrow> organ_listing \<Rightarrow> bool" where
  "catalog_where q typ availability l =
     ((typ \<noteq> [] \<and> typ \<noteq> ''All'' \<longrightarrow> sql_lower (ol_organ_type l) = lower typ)
      \<and> (availability = ''Available'' \<longrightarrow> ol_availability_status l = ''Available'')
      \<and> (availability = ''Unavailable'' \<longrightarrow> ol_availability_status l = ''Unavailable'')
      \<and> (q \<noteq> [] \<longrightarrow>
           (let pat = ''%'' @ q @ ''%'' in
              like pat (sql_lower (ol_organ_type l))
            \<or> like pat (sql_lower (ol_blood_type l))
            \<or> like pat (sql_lower (ol_hospital_name l))
            \<or> like pat (sql_lower (ol_city l))
            \<or> like pat (sql_lower (ol_state l)))))"

definition organ_listings ::
  "db \<Rightarrow> string option \<Rightarrow> string option \<Rightarrow> string option \<Rightarrow> organ_listing list" where
  "organ_listings s arg_q arg_type arg_availability =
     (let q = lower (strip (get_or arg_q []));
          typ = get_or arg_type ''All'';
          availability = get_or arg_availability ''All''
      in sort_key (\<lambda>l. (catalog_rank (ol_priority_status l), - ol_created_at l))
           (filter (catalog_where q typ availability) (t_organ_listings s)))"

subsection \<open>The driver's available orders\<close>

text \<open>
  The last query of \<^verbatim>\<open>driver_portal\<close>: the requests with status Requested and no driver,
  each joined (\<^verbatim>\<open>LEFT JOIN\<close>) with its listing.
\<close>

definition available_rank :: "string \<Rightarrow> nat" where
  "available_rank p =
     (if p = ''Emergency'' then 1 else if p = ''Urgent'' then 2
      else if p = ''Critical'' then 3 else 4)"

definition available_orders :: "db \<Rightarrow> (transport_request \<times> organ_listing option) list" where
  "available_orders s =
     map (\<lambda>r. (r, case tr_listing_id r of None \<Rightarrow> None | Some k \<Rightarrow> get_listing s k))
       (sort_key (\<lambda>r. (available_rank (tr_priority_status r), tr_created_at r))
          (filter (\<lambda>r. tr_status r = ''Requested'' \<and> tr_driver_id r = None)
             (t_transport_requests s)))"

subsection \<open>Creating requests\<close>

text \<open>
  Modelled from the spec: the schema of the tables (\<^verbatim>\<open>seed.sql\<close>) is not among the
  sources. The spec's data model gives every transport request an \<^verbatim>\<open>id\<close>, a
  \<^verbatim>\<open>created_at\<close> and an \<^verbatim>\<open>updated_at\<close>, which the \<^verbatim>\<open>INSERT\<close> statements do not name:
  the id is taken as SQLite's row id (one more than the largest id of the table, 1 in an
  empty table), and both time stamps as \<^verbatim>\<open>CURRENT_TIMESTAMP\<close>.
\<close>

definition new_rowid :: "int list \<Rightarrow> int" where
  "new_rowid ids = (if ids = [] then 1 else Max (set ids) + 1)"

definition insert_request :: "transport_request \<Rightarrow> db \<Rightarrow> db" where
  "insert_request r s = s\<lparr>t_transport_requests := t_transport_requests s @ [r]\<rparr>"

text \<open>
  The form of \<^verbatim>\<open>request_transport\<close>. \<^verbatim>\<open>hospital_id\<close> is sent as text and is \<open>None\<close> here
  when it is missing or empty (\<^verbatim>\<open>not hospital_id\<close>); SQLite compares a text that denotes a
  number with the integer key by value, and a text that denotes none matches no row, as
  the key of no row does.
\<close>

record request_form =
  f_hospital_id :: "int option"
  f_destination :: "string option"
  f_contact_phone :: "string option"
  f_notes :: "string option"

definition request_transport ::
  "db \<Rightarrow> http_method \<Rightarrow> int \<Rightarrow> request_form \<Rightarrow> timestamp \<Rightarrow> response \<times> db" where
  "request_transport s method listing_id d now =
     (case get_listing s listing_id of
        None \<Rightarrow> (Aborted 404 ''Listing not found'', s)
      | Some listing \<Rightarrow>
          if ol_availability_status listing \<noteq> ''Available''
            then (Rendered ''request_transport_unavailable.html'' 400, s)
          else (case method of
                  GET \<Rightarrow> (Rendered ''request_transport.html'' 200, s)
                | POST \<Rightarrow>
                    (let destination = strip (get_or (f_destination d) []);
                         contact_phone = strip (get_or (f_contact_phone d) []);
                         notes = strip (get_or (f_notes d) [])
                     in case f_hospital_id d of
                          None \<Rightarrow> (Plain ''Hospital is required'' 400, s)
                        | Some hospital_id \<Rightarrow>
                            (case get_hospital s hospital_id of
                               None \<Rightarrow> (Plain ''Selected hospital not found'' 400, s)
                             | Some hospital_row \<Rightarrow>
                                 if destination = [] \<or> contact_phone = []
                                   then (Plain ''Delivery address and contact phone are required'' 400, s)
                                 else
                                   (let origin = ol_hospital_name listing @ '' ('' @ ol_city listing
                                                   @ '', '' @ ol_state listing @ '')'';
                                        order_id = new_rowid (map tr_id (t_transport_requests s));
                                        s1 = insert_request
                                               \<lparr>tr_id = order_id,
                                                tr_listing_id = Some (ol_id listing),
                                                tr_hospital = h_name hospital_row,
                                                tr_organ_type = ol_organ_type listing,
                                                tr_origin = origin,
                                                tr_destination = destination,
                                                tr_contact_phone = contact_phone,
                                                tr_notes = notes,
                                                tr_priority_status = ol_priority_status listing,
                                                tr_status = ''Requested'',
                                                tr_driver_id = None,
                                                tr_created_at = now,
                                                tr_updated_at = now\<rparr> s;
                                        s2 = s1\<lparr>t_organ_listings :=
                                                 map (\<lambda>l. if ol_id l = ol_id listing
                                                            then l\<lparr>ol_availability_status := ''Unavailable''\<rparr>
                                                            else l)
                                                   (t_organ_listings s1)\<rparr>
                                    in (Redirect ''order_confirmation'' (Some order_id), s2))))))"

text \<open>
  \<^verbatim>\<open>emergency_transport\<close> (\<^verbatim>\<open>/emergency-transport\<close>). \<^verbatim>\<open>d["hospital"]\<close> and the three
  other fields read with brackets raise a key error when missing, which Flask answers
  with status 400; \<^verbatim>\<open>contact_phone\<close> and \<^verbatim>\<open>notes\<close> default to the empty text.

  With a complete form the handler calls \<^verbatim>\<open>execute\<close> on its \<^verbatim>\<open>INSERT\<close>. The statement
  names ten columns and gives eleven values (\<^verbatim>\<open>NULL\<close>, seven placeholders,
  \<^verbatim>\<open>'Emergency'\<close>, \<^verbatim>\<open>'Requested'\<close>, \<^verbatim>\<open>NULL\<close>), and the handler passes six arguments:
  SQLite refuses the statement, the exception leaves the handler, Flask answers with
  status 500, and no row is written.
\<close>

record emergency_form =
  e_hospital :: "string option"
  e_organ_type :: "string option"
  e_origin :: "string option"
  e_destination :: "string option"
  e_contact_phone :: "string option"
  e_notes :: "string option"

definition emergency_transport ::
  "db \<Rightarrow> http_method \<Rightarrow> emergency_form \<Rightarrow> timestamp \<Rightarrow> response \<times> db" where
  "emergency_transport s method d now =
     (case method of
        GET \<Rightarrow> (Rendered ''emergency_transport.html'' 200, s)
      | POST \<Rightarrow>
          (case (e_hospital d, e_organ_type d, e_origin d, e_destination d) of
             (Some hospital, Some organ_type, Some origin, Some destination) \<Rightarrow>
               (Aborted 500 ''Internal Server Error'', s)
           | _ \<Rightarrow> (Aborted 400 ''Bad Request'', s)))"

subsection \<open>Sequences of operations\<close>

text \<open>
  The four operations of the order lifecycle, each a POST request, and the database after
  a list of them, every one with the time at which it runs.
\<close>

datatype operation =
    CreateRequest int request_form
  | CreateEmergencyRequest emergency_form
  | ClaimOrder int "int option"
  | UpdateStatus int "int option" "string option"

fun step :: "db \<Rightarrow> operation \<times> timestamp \<Rightarrow> db" where
  "step s (CreateRequest listing_id d, now) = snd (request_transport s POST listing_id d now)"
| "step s (CreateEmergencyRequest d, now) = snd (emergency_transport s POST d now)"
| "step s (ClaimOrder order_id driver_id, now) = snd (driver_claim s order_id driver_id now)"
| "step s (UpdateStatus order_id driver_id new_status, now) =
     snd (driver_update_status s order_id driver_id new_status now)"

definition run :: "db \<Rightarrow> (operation \<times> timestamp) list \<Rightarrow> db" where
  "run s ops = foldl step s ops"

subsection \<open>Properties of the database\<close>

text \<open>
  \<^verbatim>\<open>id\<close> is the key of \<^verbatim>\<open>transport_requests\<close>: no two rows share it.
\<close>

definition unique_ids :: "db \<Rightarrow> bool" where
  "unique_ids s = distinct (map tr_id (t_transport_requests s))"

text \<open>
  A request that has a driver is Assigned, En-route or Delivered: the driver portal lists
  the Delivered requests of a driver by their \<^verbatim>\<open>driver_id\<close>.
\<close>

definition driver_implies_status :: "db \<Rightarrow> bool" where
  "driver_implies_status s =
     list_all (\<lambda>r. tr_driver_id r \<noteq> None \<longrightarrow>
                 tr_status r = ''Assigned'' \<or> tr_status r = ''En-route'' \<or> tr_status r = ''Delivered'')
       (t_transport_requests s)"

text \<open>The spec's data model: a request has a driver exactly when it is Assigned or En-route.\<close>

definition driver_iff_active :: "db \<Rightarrow> bool" where
  "driver_iff_active s =
     list_all (\<lambda>r. (tr_driver_id r \<noteq> None) = active_status (tr_status r))
       (t_transport_requests s)"

text \<open>No driver has more than one Assigned or En-route request.\<close>

definition one_active_per_driver :: "db \<Rightarrow> bool" where
  "one_active_per_driver s = (\<forall>d. active_count s d \<le> 1)"

definition lifecycle_inv :: "db \<Rightarrow> bool" where
  "lifecycle_inv s = (unique_ids s \<and> driver_implies_status s \<and> one_active_per_driver s)"

subsection \<open>Example rows\<close>

text \<open>
  The rows of the spec's scenarios: hospital H1 in Dallas, TX, its kidney listing, and a
  request of hospital H2 for it.
\<close>

definition example_hospital :: "int \<Rightarrow> string \<Rightarrow> hospital" where
  "example_hospital k n =
     \<lparr>h_id = k, h_name = n, h_city = ''Dallas'', h_state = ''TX'', h_email = []\<rparr>"

definition example_listing :: "int \<Rightarrow> string \<Rightarrow> string \<Rightarrow> timestamp \<Rightarrow> organ_listing" where
  "example_listing k priority availability created =
     \<lparr>ol_id = k, ol_hospital_id = 1, ol_hospital_name = ''H1'', ol_organ_type = ''Kidney'',
      ol_blood_type = ''O+'', ol_age = 30, ol_weight_kg = 70,
      ol_priority_status = priority, ol_availability_status = availability,
      ol_city = ''Dallas'', ol_state = ''TX'', ol_created_at = created\<rparr>"

definition example_request ::
  "int \<Rightarrow> string \<Rightarrow> string \<Rightarrow> int option \<Rightarrow> timestamp \<Rightarrow> transport_request" where
  "example_request k priority status driver created =
     \<lparr>tr_id = k, tr_listing_id = None, tr_hospital = ''H2'', tr_organ_type = ''Kidney'',
      tr_origin = ''H1 (Dallas, TX)'', tr_destination = ''123 Main St'',
      tr_contact_phone = ''555-1111'', tr_notes = [], tr_priority_status = priority,
      tr_status = status, tr_driver_id = driver, tr_created_at = created,
      tr_updated_at = created\<rparr>"

definition example_db :: "organ_listing list \<Rightarrow> transport_request list \<Rightarrow> db" where
  "example_db ls rs =
     \<lparr>t_hospitals = [example_hospital 1 ''H1'', example_hospital 2 ''H2''],
      t_organ_listings = ls, t_transport_requests = rs\<rparr>"

definition example_form :: "int \<Rightarrow> request_form" where
  "example_form k =
     \<lparr>f_hospital_id = Some k, f_destination = Some '' 123 Main St '',
      f_contact_phone = Some ''555-1111'', f_notes = None\<rparr>"

text \<open>Two requests: one waiting for a driver, one assigned to driver 5.\<close>

definition two_orders :: db where
  "two_orders = example_db [example_listing 1 ''Critical'' ''Available'' 100]
                  [example_request 1 ''Critical'' ''Requested'' None 10,
                   example_request 2 ''Urgent'' ''Assigned'' (Some 5) 20]"

text \<open>Listings and requests of every priority.\<close>

definition cat_db :: db where
  "cat_db = example_db
              [example_listing 1 ''Urgent'' ''Available'' 10,
               example_listing 2 ''Critical'' ''Available'' 20,
               example_listing 3 ''Critical'' ''Unavailable'' 30,
               example_listing 4 ''Emergency'' ''Available'' 5,
               example_listing 5 ''Normal'' ''Available'' 50]
              [example_request 1 ''Critical'' ''Requested'' None 10,
               example_request 2 ''Urgent'' ''Requested'' None 20,
               example_request 3 ''Urgent'' ''Requested'' None 15,
               example_request 4 ''Emergency'' ''Assigned'' (Some 5) 1,
               example_request 5 ''Emergency'' ''Requested'' None 30]"

section \<open>Lemmas\<close>

subsection \<open>Rows by key\<close>

lemma find_map_update:
  assumes "\<And>r. key (f r) = key r"
  shows "find (\<lambda>r. key r = k) (map (\<lambda>r. if key r = j then f r else r) rs) =
         (if k = j then map_option f (find (\<lambda>r. key r = k) rs) else find (\<lambda>r. key r = k) rs)"
  using assms by (induction rs) auto

lemma get_order_update_requests:
  assumes "\<And>r. tr_id (f r) = tr_id r"
  shows "get_order (update_requests j f s) k =
         (if k = j then map_option f (get_order s k) else get_order s k)"
  unfolding get_order_def update_requests_def
  using find_map_update [of tr_id f k j "t_transport_requests s"] assms by simp

lemma driver_has_active_order_iff:
  "driver_has_active_order s d \<longleftrightarrow>
     (\<exists>r \<in> set (t_transport_requests s).
        tr_driver_id r = Some d \<and> (tr_status r = ''Assigned'' \<or> tr_status r = ''En-route''))"
  unfolding driver_has_active_order_def active_count_def active_status_def
  by (auto simp: filter_empty_conv)

lemma length_filter_mono:
  "(\<And>x. x \<in> set xs \<Longrightarrow> Q x \<Longrightarrow> P x) \<Longrightarrow> length (filter Q xs) \<le> length (filter P xs)"
  by (induction xs) auto

lemma length_filter_key_le_1:
  "distinct (map key xs) \<Longrightarrow> length (filter (\<lambda>x. key x = k) xs) \<le> 1"
proof (induction xs)
  case Nil
  then show ?case by simp
next
  case (Cons x xs)
  show ?case
  proof (cases "key x = k")
    case True
    with Cons.prems have "\<forall>y \<in> set xs. key y \<noteq> k" by (auto simp: image_iff)
    then have "filter (\<lambda>x. key x = k) xs = []" by (simp add: filter_empty_conv)
    with True show ?thesis by simp
  next
    case False
    with Cons show ?thesis by simp
  qed
qed

lemma find_unique:
  "distinct (map key xs) \<Longrightarrow> find (\<lambda>x. key x = k) xs = Some y \<Longrightarrow> x \<in> set xs \<Longrightarrow> key x = k
     \<Longrightarrow> x = y"
proof (induction xs)
  case Nil
  then show ?case by simp
next
  case (Cons a xs)
  then show ?case
    by (cases "key a = k") (auto simp: image_iff)
qed

lemma get_order_unique:
  "unique_ids s \<Longrightarrow> get_order s k = Some order \<Longrightarrow> r \<in> set (t_transport_requests s)
     \<Longrightarrow> tr_id r = k \<Longrightarrow> r = order"
  unfolding unique_ids_def get_order_def by (rule find_unique)

lemma active_count_update_requests:
  "active_count (update_requests k f s) d =
     length (filter (\<lambda>r. tr_driver_id (if tr_id r = k then f r else r) = Some d
                        \<and> active_status (tr_status (if tr_id r = k then f r else r)))
               (t_transport_requests s))"
  by (simp add: active_count_def update_requests_def filter_map o_def)

lemma new_rowid_fresh: "new_rowid ids \<notin> set ids"
proof
  assume a: "new_rowid ids \<in> set ids"
  then have "ids \<noteq> []" by auto
  moreover from a have "new_rowid ids \<le> Max (set ids)" by simp
  ultimately show False by (simp add: new_rowid_def)
qed

lemma unique_ids_update_requests:
  "(\<And>r. tr_id (f r) = tr_id r) \<Longrightarrow> unique_ids (update_requests k f s) = unique_ids s"
proof -
  assume h: "\<And>r. tr_id (f r) = tr_id r"
  have "tr_id \<circ> (\<lambda>r. if tr_id r = k then f r else r) = tr_id"
    by (auto simp: h fun_eq_iff)
  then show ?thesis by (simp add: unique_ids_def update_requests_def)
qed

lemma active_count_zero:
  "active_count s d = 0 \<Longrightarrow> r \<in> set (t_transport_requests s) \<Longrightarrow> tr_driver_id r = Some d
     \<Longrightarrow> \<not> active_status (tr_status r)"
  by (auto simp: active_count_def filter_empty_conv)

lemma driver_implies_statusD:
  "driver_implies_status s \<Longrightarrow> r \<in> set (t_transport_requests s) \<Longrightarrow> tr_driver_id r = Some d
     \<Longrightarrow> tr_status r \<noteq> ''Delivered'' \<Longrightarrow> active_status (tr_status r)"
  by (auto simp: driver_implies_status_def list_all_iff active_status_def)

lemma claim_active_count:
  assumes u: "unique_ids s" and free: "active_count s d = 0" and one: "active_count s d' \<le> 1"
  shows "active_count (update_requests k
            (\<lambda>r. r\<lparr>tr_driver_id := Some d, tr_status := ''Assigned'', tr_updated_at := now\<rparr>) s) d' \<le> 1"
proof (cases "d' = d")
  case True
  have "active_count (update_requests k
            (\<lambda>r. r\<lparr>tr_driver_id := Some d, tr_status := ''Assigned'', tr_updated_at := now\<rparr>) s) d
        \<le> length (filter (\<lambda>r. tr_id r = k) (t_transport_requests s))"
    unfolding active_count_update_requests
    by (rule length_filter_mono) (auto dest: active_count_zero [OF free] split: if_splits)
  also have "\<dots> \<le> 1"
    using u unfolding unique_ids_def by (rule length_filter_key_le_1)
  finally show ?thesis using True by simp
next
  case False
  have "active_count (update_requests k
            (\<lambda>r. r\<lparr>tr_driver_id := Some d, tr_status := ''Assigned'', tr_updated_at := now\<rparr>) s) d'
        \<le> active_count s d'"
    unfolding active_count_update_requests
    unfolding active_count_def
    by (rule length_filter_mono) (use False in \<open>auto split: if_splits\<close>)
  with one show ?thesis by simp
qed

lemma driver_claim_active_count:
  assumes "unique_ids s" and "one_active_per_driver s"
  shows "active_count (snd (driver_claim s k driver_id now)) d' \<le> 1"
proof -
  from assms(2) have one: "active_count s d' \<le> 1" by (simp add: one_active_per_driver_def)
  show ?thesis
    using one claim_active_count [OF assms(1) _ one]
    by (auto simp: driver_claim_def driver_has_active_order_def split: option.splits)
qed

lemma update_active_count:
  assumes u: "unique_ids s" and i: "driver_implies_status s"
    and o: "get_order s k = Some order" and nd: "tr_status order \<noteq> ''Delivered''"
    and f: "\<And>r. tr_driver_id (f r) = None \<or> tr_driver_id (f r) = tr_driver_id r"
  shows "active_count (update_requests k f s) d' \<le> active_count s d'"
  unfolding active_count_update_requests
  unfolding active_count_def
proof (rule length_filter_mono)
  fix r
  assume r: "r \<in> set (t_transport_requests s)"
    and a: "tr_driver_id (if tr_id r = k then f r else r) = Some d'
            \<and> active_status (tr_status (if tr_id r = k then f r else r))"
  show "tr_driver_id r = Some d' \<and> active_status (tr_status r)"
  proof (cases "tr_id r = k")
    case True
    with u o r have eq: "r = order" by (auto dest: get_order_unique)
    from a True f [of r] have dr: "tr_driver_id r = Some d'" by auto
    with i r nd eq show ?thesis by (auto dest: driver_implies_statusD)
  next
    case False
    with a show ?thesis by simp
  qed
qed

lemma driver_update_status_active_count:
  assumes "unique_ids s" and "driver_implies_status s"
  shows "active_count (snd (driver_update_status s k driver_id new_status now)) d'
         \<le> active_count s d'"
  using update_active_count [OF assms]
  by (auto simp: driver_update_status_def split: option.splits)

lemma requests_of_request_transport:
  "t_transport_requests (snd (request_transport s m lid d now)) = t_transport_requests s
   \<or> (\<exists>r. tr_driver_id r = None \<and> tr_status r = ''Requested''
         \<and> tr_id r = new_rowid (map tr_id (t_transport_requests s))
         \<and> t_transport_requests (snd (request_transport s m lid d now)) = t_transport_requests s @ [r])"
  by (simp add: request_transport_def insert_request_def Let_def
           split: option.splits http_method.splits)

lemma emergency_transport_writes_nothing:
  "snd (emergency_transport s m d now) = s"
  by (simp add: emergency_transport_def split: option.splits http_method.splits)

lemma driver_iff_active_implies_status:
  "driver_iff_active s \<Longrightarrow> driver_implies_status s"
  by (auto simp: driver_iff_active_def driver_implies_status_def active_status_def list_all_iff)

lemma lifecycle_inv_requests:
  "t_transport_requests s' = t_transport_requests s \<Longrightarrow> lifecycle_inv s' = lifecycle_inv s"
  by (simp add: lifecycle_inv_def unique_ids_def driver_implies_status_def
        one_active_per_driver_def active_count_def)

lemma lifecycle_inv_append:
  assumes "lifecycle_inv s" and "tr_driver_id r = None"
    and "tr_id r = new_rowid (map tr_id (t_transport_requests s))"
    and "t_transport_requests s' = t_transport_requests s @ [r]"
  shows "lifecycle_inv s'"
  using assms new_rowid_fresh [of "map tr_id (t_transport_requests s)"]
  by (simp add: lifecycle_inv_def unique_ids_def driver_implies_status_def
        one_active_per_driver_def active_count_def)

lemma driver_implies_status_update:
  assumes "driver_implies_status s"
    and "\<And>r. tr_driver_id (f r) = None \<or> tr_status (f r) = ''Assigned''
              \<or> tr_status (f r) = ''En-route'' \<or> tr_status (f r) = ''Delivered''"
  shows "driver_implies_status (update_requests k f s)"
proof -
  have "tr_driver_id (if tr_id r = k then f r else r) \<noteq> None \<longrightarrow>
          tr_status (if tr_id r = k then f r else r) = ''Assigned''
        \<or> tr_status (if tr_id r = k then f r else r) = ''En-route''
        \<or> tr_status (if tr_id r = k then f r else r) = ''Delivered''"
    if "r \<in> set (t_transport_requests s)" for r
    using assms(1) assms(2) [of r] that
    by (auto simp: driver_implies_status_def list_all_iff)
  then have "list_all
          (\<lambda>r. tr_driver_id (if tr_id r = k then f r else r) \<noteq> None \<longrightarrow>
                 tr_status (if tr_id r = k then f r else r) = ''Assigned''
               \<or> tr_status (if tr_id r = k then f r else r) = ''En-route''
               \<or> tr_status (if tr_id r = k then f r else r) = ''Delivered'')
          (t_transport_requests s)"
    unfolding list_all_iff by blast
  then show ?thesis
    by (simp add: driver_implies_status_def update_requests_def list.pred_map o_def)
qed

lemma driver_implies_status_claim:
  "driver_implies_status s \<Longrightarrow> driver_implies_status (snd (driver_claim s k driver_id now))"
  by (auto simp: driver_claim_def intro: driver_implies_status_update split: option.splits)

lemma driver_implies_status_update_status:
  "driver_implies_status s
     \<Longrightarrow> driver_implies_status (snd (driver_update_status s k driver_id new_status now))"
  by (auto simp: driver_update_status_def allowed_statuses_def
           intro!: driver_implies_status_update split: option.splits)

lemma unique_ids_claim:
  "unique_ids s \<Longrightarrow> unique_ids (snd (driver_claim s k driver_id now))"
  by (auto simp: driver_claim_def unique_ids_update_requests split: option.splits)

lemma unique_ids_update_status:
  "unique_ids s \<Longrightarrow> unique_ids (snd (driver_update_status s k driver_id new_status now))"
  by (auto simp: driver_update_status_def unique_ids_update_requests split: option.splits)

lemma lifecycle_inv_step:
  assumes "lifecycle_inv s"
  shows "lifecycle_inv (step s (op, now))"
proof (cases op)
  case (CreateRequest lid d)
  have "lifecycle_inv (snd (request_transport s POST lid d now))"
    using requests_of_request_transport [of s POST lid d now]
  proof (elim disjE exE conjE)
    assume "t_transport_requests (snd (request_transport s POST lid d now)) = t_transport_requests s"
    from lifecycle_inv_requests [OF this] assms show ?thesis by blast
  next
    fix r
    assume "tr_driver_id r = None"
      and "tr_id r = new_rowid (map tr_id (t_transport_requests s))"
      and "t_transport_requests (snd (request_transport s POST lid d now)) = t_transport_requests s @ [r]"
    with assms show ?thesis by (rule lifecycle_inv_append)
  qed
  with CreateRequest show ?thesis by simp
next
  case (CreateEmergencyRequest d)
  with assms show ?thesis by (simp add: emergency_transport_writes_nothing)
next
  case (ClaimOrder k driver_id)
  from assms have "active_count (snd (driver_claim s k driver_id now)) d \<le> 1" for d
    using driver_claim_active_count [of s k driver_id now d] by (simp add: lifecycle_inv_def)
  with assms ClaimOrder show ?thesis
    by (simp add: lifecycle_inv_def unique_ids_claim driver_implies_status_claim
          one_active_per_driver_def)
next
  case (UpdateStatus k driver_id new_status)
  have "active_count (snd (driver_update_status s k driver_id new_status now)) d \<le> 1" for d
  proof -
    have "active_count (snd (driver_update_status s k driver_id new_status now)) d
          \<le> active_count s d"
      using assms by (simp add: lifecycle_inv_def driver_update_status_active_count)
    also have "\<dots> \<le> 1"
      using assms by (simp add: lifecycle_inv_def one_active_per_driver_def)
    finally show ?thesis .
  qed
  with assms UpdateStatus show ?thesis
    by (simp add: lifecycle_inv_def unique_ids_update_status driver_implies_status_update_status
          one_active_per_driver_def)
qed

lemma lifecycle_inv_run: "lifecycle_inv s \<Longrightarrow> lifecycle_inv (run s ops)"
  unfolding run_def
proof (induction ops arbitrary: s)
  case Nil
  then show ?case by simp
next
  case (Cons a ops)
  obtain op now where "a = (op, now)" by (cases a)
  with Cons show ?case by (simp add: lifecycle_inv_step)
qed

lemma find_key: "find (\<lambda>x. key x = k) xs = Some y \<Longrightarrow> key y = k"
  by (induction xs) (auto split: if_splits)

lemma get_listing_id: "get_listing s k = Some l \<Longrightarrow> ol_id l = k"
  unfolding get_listing_def by (rule find_key)

lemma sorted_wrt_sort_key_pair:
  fixes f :: "'a \<Rightarrow> nat" and g :: "'a \<Rightarrow> int"
  shows "sorted_wrt (\<lambda>a b. f a < f b \<or> (f a = f b \<and> g a \<le> g b))
           (sort_key (\<lambda>x. (f x, g x)) xs)"
proof -
  have "sorted (map (\<lambda>x. (f x, g x)) (sort_key (\<lambda>x. (f x, g x)) xs))"
    by (rule sorted_sort_key)
  then have "sorted_wrt (\<lambda>a b. (f a, g a) \<le> (f b, g b)) (sort_key (\<lambda>x. (f x, g x)) xs)"
    by (simp only: sorted_map)
  then show ?thesis
    by (rule sorted_wrt_mono_rel [rotated]) auto
qed

section \<open>The claims\<close>

subsection \<open>Claiming an order\<close>

text \<open>
  Claim C1. \<^verbatim>\<open>driver_claim\<close> with a driver id (one that the handler does not take for
  missing: \<^verbatim>\<open>not driver_id\<close> holds of 0) answers ``Driver already has an active order''
  exactly when some request of that driver is Assigned or En-route; it answers ``Order is
  no longer available'' exactly when the driver has none and the order does not exist or
  is not Requested; both answers have status 400 and leave the database as it was.
  Otherwise it redirects to the driver portal and the order has the given driver, the
  status Assigned and \<open>now\<close> as \<^verbatim>\<open>updated_at\<close>, its other columns unchanged.
\<close>

theorem driver_claim_outcomes:
  assumes "d \<noteq> 0"
  shows "(fst (driver_claim s k (Some d) now) = Plain ''Driver already has an active order'' 400
            \<longleftrightarrow> (\<exists>r \<in> set (t_transport_requests s).
                   tr_driver_id r = Some d \<and> (tr_status r = ''Assigned'' \<or> tr_status r = ''En-route'')))
       \<and> (fst (driver_claim s k (Some d) now) = Plain ''Order is no longer available'' 400
            \<longleftrightarrow> \<not> (\<exists>r \<in> set (t_transport_requests s).
                   tr_driver_id r = Some d \<and> (tr_status r = ''Assigned'' \<or> tr_status r = ''En-route''))
                 \<and> (case get_order s k of None \<Rightarrow> True | Some order \<Rightarrow> tr_status order \<noteq> ''Requested''))
       \<and> (status_code (fst (driver_claim s k (Some d) now)) = 400
            \<longrightarrow> snd (driver_claim s k (Some d) now) = s)
       \<and> (\<forall>order. \<not> (\<exists>r \<in> set (t_transport_requests s).
                   tr_driver_id r = Some d \<and> (tr_status r = ''Assigned'' \<or> tr_status r = ''En-route''))
                 \<and> get_order s k = Some order \<and> tr_status order = ''Requested''
            \<longrightarrow> fst (driver_claim s k (Some d) now) = Redirect ''driver_portal'' (Some d)
                \<and> get_order (snd (driver_claim s k (Some d) now)) k =
                    Some (order\<lparr>tr_driver_id := Some d, tr_status := ''Assigned'', tr_updated_at := now\<rparr>))"
  using assms
  by (auto simp: driver_claim_def driver_has_active_order_iff get_order_update_requests
           split: option.splits)

text \<open>Driver 7 claims request 1; driver 5, who has request 2, cannot.\<close>

theorem driver_claim_outcomes_witness:
  "(7::int) \<noteq> 0
   \<and> get_order two_orders 1 = Some (example_request 1 ''Critical'' ''Requested'' None 10)
   \<and> fst (driver_claim two_orders 1 (Some 7) 50) = Redirect ''driver_portal'' (Some 7)
   \<and> get_order (snd (driver_claim two_orders 1 (Some 7) 50)) 1
       = Some ((example_request 1 ''Critical'' ''Assigned'' (Some 7) 10)\<lparr>tr_updated_at := 50\<rparr>)
   \<and> driver_claim two_orders 1 (Some 5) 50
       = (Plain ''Driver already has an active order'' 400, two_orders)
   \<and> driver_claim two_orders 2 (Some 7) 50
       = (Plain ''Order is no longer available'' 400, two_orders)"
  using driver_claim_outcomes [of 7 two_orders 1 50]
  by (simp add: driver_claim_def driver_has_active_order_def active_count_def active_status_def
        get_order_def update_requests_def two_orders_def example_db_def example_request_def)

subsection \<open>One active order for each driver\<close>

text \<open>
  Claim C2. A state of the data model has unique request ids and a driver on exactly the
  requests that are Assigned or En-route; the states that the operations reach from one
  have unique ids and a driver only on requests that are Assigned, En-route or Delivered.
  From every such state in which no driver has more than one Assigned or En-route request,
  after any sequence of CreateRequest, CreateEmergencyRequest, ClaimOrder and UpdateStatus
  no driver has more than one.
\<close>

theorem one_active_order_per_driver:
  assumes "unique_ids s" and "driver_iff_active s \<or> driver_implies_status s"
    and "\<forall>d. active_count s d \<le> 1"
  shows "active_count (run s ops) driver_id \<le> 1"
proof -
  from assms(2) have "driver_implies_status s"
    by (auto dest: driver_iff_active_implies_status)
  with assms(1,3) have "lifecycle_inv s"
    by (simp add: lifecycle_inv_def one_active_per_driver_def)
  then have "lifecycle_inv (run s ops)"
    by (rule lifecycle_inv_run)
  then show ?thesis
    by (simp add: lifecycle_inv_def one_active_per_driver_def)
qed

text \<open>
  From \<open>two_orders\<close>, a state of the data model: hospital H2 requests listing 1, driver 7
  claims request 1 and then tries request 2, which driver 5 meanwhile reverted. The second
  claim is refused, and driver 7 still has one active request.
\<close>

theorem one_active_order_per_driver_witness:
  "unique_ids two_orders \<and> driver_iff_active two_orders
   \<and> (\<forall>d. active_count two_orders d \<le> 1)
   \<and> active_count (run two_orders [(CreateRequest 1 (example_form 2), 49),
                                     (ClaimOrder 1 (Some 7), 50),
                                     (UpdateStatus 2 (Some 5) (Some ''Requested''), 51),
                                     (ClaimOrder 2 (Some 7), 52)]) 7 = 1"
  using one_active_order_per_driver [of two_orders
          "[(CreateRequest 1 (example_form 2), 49), (ClaimOrder 1 (Some 7), 50),
            (UpdateStatus 2 (Some 5) (Some ''Requested''), 51), (ClaimOrder 2 (Some 7), 52)]" 7]
  by (simp add: run_def request_transport_def insert_request_def new_rowid_def get_listing_def
        get_hospital_def get_or_def strip_def is_space_def Let_def
        driver_claim_def driver_update_status_def driver_has_active_order_def
        active_count_def active_status_def allowed_statuses_def get_order_def
        update_requests_def unique_ids_def driver_iff_active_def
        two_orders_def example_db_def example_request_def example_listing_def
        example_hospital_def example_form_def)

subsection \<open>Driver and status\<close>

text \<open>
  Claim C3, as the code has it. If every request that has a driver is Assigned, En-route
  or Delivered, then so it is after each of CreateRequest, CreateEmergencyRequest,
  ClaimOrder and UpdateStatus. (A Delivered request keeps its driver.)
\<close>

theorem driver_implies_status_preserved:
  assumes "driver_implies_status s"
  shows "\<forall>r \<in> set (t_transport_requests (step s (op, now))).
           tr_driver_id r \<noteq> None \<longrightarrow>
             tr_status r = ''Assigned'' \<or> tr_status r = ''En-route'' \<or> tr_status r = ''Delivered''"
proof -
  have "driver_implies_status (step s (op, now))"
  proof (cases op)
    case (CreateRequest lid d)
    with assms requests_of_request_transport [of s POST lid d now] show ?thesis
      by (auto simp: driver_implies_status_def)
  next
    case (CreateEmergencyRequest d)
    with assms show ?thesis by (simp add: emergency_transport_writes_nothing)
  next
    case (ClaimOrder k driver_id)
    with assms show ?thesis by (simp add: driver_implies_status_claim)
  next
    case (UpdateStatus k driver_id new_status)
    with assms show ?thesis by (simp add: driver_implies_status_update_status)
  qed
  then show ?thesis
    by (simp add: driver_implies_status_def list_all_iff)
qed

text \<open>Request 2 is delivered and keeps driver 5.\<close>

theorem driver_implies_status_preserved_witness:
  "driver_implies_status two_orders
   \<and> map (\<lambda>r. (tr_id r, tr_driver_id r, tr_status r))
       (t_transport_requests (step two_orders (UpdateStatus 2 (Some 5) (Some ''Delivered''), 50)))
     = [(1, None, ''Requested''), (2, Some 5, ''Delivered'')]
   \<and> driver_implies_status (step two_orders (UpdateStatus 2 (Some 5) (Some ''Delivered''), 50))"
  using driver_implies_status_preserved
          [of two_orders "UpdateStatus 2 (Some 5) (Some ''Delivered'')" 50]
  by (simp add: driver_implies_status_def driver_update_status_def allowed_statuses_def
        get_order_def update_requests_def two_orders_def example_db_def example_request_def)

text \<open>
  The equivalence that the spec states holds of \<open>two_orders\<close> and no longer holds once
  request 2 is delivered: the request is Delivered and has driver 5.
\<close>

theorem driver_iff_active_counterexample:
  "driver_iff_active two_orders
   \<and> \<not> driver_iff_active (step two_orders (UpdateStatus 2 (Some 5) (Some ''Delivered''), 50))"
  by (simp add: driver_iff_active_def active_status_def driver_update_status_def
        allowed_statuses_def get_order_def update_requests_def
        two_orders_def example_db_def example_request_def)

subsection \<open>Delivered orders\<close>

text \<open>
  Claim C4. When the order is Delivered, \<^verbatim>\<open>driver_update_status\<close> fails with status 400
  and leaves the whole database unchanged, whatever the driver and the new status are;
  when both are given (a driver id other than 0 and a status other than the empty text,
  which the handler takes for missing), the answer is ``Delivered orders cannot be
  modified''.
\<close>

theorem delivered_is_terminal:
  assumes "get_order s k = Some order" and "tr_status order = ''Delivered''"
  shows "snd (driver_update_status s k driver_id new_status now) = s
       \<and> status_code (fst (driver_update_status s k driver_id new_status now)) = 400
       \<and> (\<forall>d st. driver_id = Some d \<and> d \<noteq> 0 \<and> new_status = Some st \<and> st \<noteq> []
            \<longrightarrow> fst (driver_update_status s k driver_id new_status now) =
                  Plain ''Delivered orders cannot be modified'' 400)"
  using assms by (auto simp: driver_update_status_def split: option.splits)

theorem delivered_is_terminal_witness:
  "get_order (example_db [] [example_request 3 ''Urgent'' ''Delivered'' (Some 6) 30]) 3
     = Some (example_request 3 ''Urgent'' ''Delivered'' (Some 6) 30)
   \<and> tr_status (example_request 3 ''Urgent'' ''Delivered'' (Some 6) 30) = ''Delivered''
   \<and> driver_update_status (example_db [] [example_request 3 ''Urgent'' ''Delivered'' (Some 6) 30])
        3 (Some 6) (Some ''Requested'') 50
     = (Plain ''Delivered orders cannot be modified'' 400,
        example_db [] [example_request 3 ''Urgent'' ''Delivered'' (Some 6) 30])"
  using delivered_is_terminal
          [of "example_db [] [example_request 3 ''Urgent'' ''Delivered'' (Some 6) 30]" 3
              "example_request 3 ''Urgent'' ''Delivered'' (Some 6) 30"
              "Some 6" "Some ''Requested''" 50]
  by (simp add: driver_update_status_def get_order_def example_db_def example_request_def)

subsection \<open>The effect of a status update\<close>

text \<open>
  Claim C5. On an order that exists and is not Delivered, \<^verbatim>\<open>driver_update_status\<close> with
  a driver id and an allowed status succeeds; with Requested the order gets the status
  Requested and no driver, with any other allowed status it gets that status and keeps its
  driver; in both cases \<^verbatim>\<open>updated_at\<close> is \<open>now\<close> and every other column is as before.
\<close>

theorem update_status_effect:
  assumes "d \<noteq> 0" and "get_order s k = Some order" and "tr_status order \<noteq> ''Delivered''"
    and "st \<in> allowed_statuses"
  shows "fst (driver_update_status s k (Some d) (Some st) now) = Redirect ''driver_portal'' (Some d)
       \<and> get_order (snd (driver_update_status s k (Some d) (Some st) now)) k =
           Some (if st = ''Requested''
                 then order\<lparr>tr_status := ''Requested'', tr_driver_id := None, tr_updated_at := now\<rparr>
                 else order\<lparr>tr_status := st, tr_updated_at := now\<rparr>)"
proof -
  from assms(4) have "st \<noteq> []" by (auto simp: allowed_statuses_def)
  with assms show ?thesis
    by (simp add: driver_update_status_def get_order_update_requests)
qed

text \<open>Request 2, assigned to driver 5: sent on its way, or given back.\<close>

theorem update_status_effect_witness:
  "(5::int) \<noteq> 0
   \<and> get_order two_orders 2 = Some (example_request 2 ''Urgent'' ''Assigned'' (Some 5) 20)
   \<and> ''En-route'' \<in> allowed_statuses
   \<and> get_order (snd (driver_update_status two_orders 2 (Some 5) (Some ''En-route'') 50)) 2
       = Some ((example_request 2 ''Urgent'' ''En-route'' (Some 5) 20)\<lparr>tr_updated_at := 50\<rparr>)
   \<and> get_order (snd (driver_update_status two_orders 2 (Some 5) (Some ''Requested'') 50)) 2
       = Some ((example_request 2 ''Urgent'' ''Requested'' None 20)\<lparr>tr_updated_at := 50\<rparr>)"
  using update_status_effect
          [of 5 two_orders 2 "example_request 2 ''Urgent'' ''Assigned'' (Some 5) 20"
              "''En-route''" 50]
  by (simp add: driver_update_status_def allowed_statuses_def get_order_def update_requests_def
        two_orders_def example_db_def example_request_def)

subsection \<open>The transitions of a status\<close>

text \<open>
  Claim C6. The comment in \<^verbatim>\<open>driver_update_status\<close> allows only the reversion from
  Assigned to Requested and the steps along the flow, but the handler checks only that
  the new status is one of the four: a Requested order goes to Delivered in one update, and
  an En-route order goes back to Requested.
\<close>

theorem update_status_skips_flow:
  "map_option tr_status
     (get_order (snd (driver_update_status
                        (example_db [] [example_request 1 ''Critical'' ''Requested'' None 10])
                        1 (Some 7) (Some ''Delivered'') 50)) 1)
     = Some ''Delivered''
   \<and> map_option tr_status
       (get_order (snd (driver_update_status
                          (example_db [] [example_request 1 ''Critical'' ''En-route'' (Some 5) 10])
                          1 (Some 5) (Some ''Requested'') 50)) 1)
     = Some ''Requested''"
  by (simp add: driver_update_status_def allowed_statuses_def get_order_def update_requests_def
        example_db_def example_request_def)

subsection \<open>Creating a request for a listing\<close>

text \<open>
  Claim C7. For a listing that exists: when it is Available, the hospital of the form
  exists and the destination and the contact phone (as the handler reads them, stripped
  of white space) are not empty, a POST to \<^verbatim>\<open>request_transport\<close> appends one request
  with status Requested, no driver, the listing's id and priority and the origin
  \<^verbatim>\<open>hospital_name (city, state)\<close>, redirects to its confirmation, and makes the listing
  Unavailable; when the listing is Unavailable, the answer is the page for an unavailable
  listing with status 400 and the database is unchanged.
\<close>

theorem request_transport_creates:
  assumes "get_listing s listing_id = Some listing"
  shows "(ol_availability_status listing = ''Available''
          \<and> f_hospital_id d = Some hospital_id \<and> get_hospital s hospital_id = Some hospital_row
          \<and> strip (get_or (f_destination d) []) \<noteq> []
          \<and> strip (get_or (f_contact_phone d) []) \<noteq> []
          \<longrightarrow> (\<exists>r. t_transport_requests (snd (request_transport s POST listing_id d now))
                       = t_transport_requests s @ [r]
                   \<and> fst (request_transport s POST listing_id d now)
                       = Redirect ''order_confirmation'' (Some (tr_id r))
                   \<and> tr_status r = ''Requested'' \<and> tr_driver_id r = None
                   \<and> tr_listing_id r = Some listing_id
                   \<and> tr_priority_status r = ol_priority_status listing
                   \<and> tr_origin r = ol_hospital_name listing @ '' ('' @ ol_city listing @ '', ''
                                      @ ol_state listing @ '')'')
              \<and> get_listing (snd (request_transport s POST listing_id d now)) listing_id
                   = Some (listing\<lparr>ol_availability_status := ''Unavailable''\<rparr>))
       \<and> (ol_availability_status listing = ''Unavailable''
          \<longrightarrow> request_transport s method listing_id d now
                = (Rendered ''request_transport_unavailable.html'' 400, s))"
proof (intro conjI impI)
  assume h: "ol_availability_status listing = ''Available''
          \<and> f_hospital_id d = Some hospital_id \<and> get_hospital s hospital_id = Some hospital_row
          \<and> strip (get_or (f_destination d) []) \<noteq> []
          \<and> strip (get_or (f_contact_phone d) []) \<noteq> []"
  from assms have id: "ol_id listing = listing_id" by (rule get_listing_id)
  from assms h id
  show "\<exists>r. t_transport_requests (snd (request_transport s POST listing_id d now))
                       = t_transport_requests s @ [r]
                   \<and> fst (request_transport s POST listing_id d now)
                       = Redirect ''order_confirmation'' (Some (tr_id r))
                   \<and> tr_status r = ''Requested'' \<and> tr_driver_id r = None
                   \<and> tr_listing_id r = Some listing_id
                   \<and> tr_priority_status r = ol_priority_status listing
                   \<and> tr_origin r = ol_hospital_name listing @ '' ('' @ ol_city listing @ '', ''
                                      @ ol_state listing @ '')''"
    by (simp add: request_transport_def insert_request_def Let_def)
  from assms h id
  have "t_organ_listings (snd (request_transport s POST listing_id d now))
        = map (\<lambda>l. if ol_id l = listing_id then l\<lparr>ol_availability_status := ''Unavailable''\<rparr> else l)
            (t_organ_listings s)"
    by (simp add: request_transport_def Let_def insert_request_def)
  with assms
  show "get_listing (snd (request_transport s POST listing_id d now)) listing_id
                   = Some (listing\<lparr>ol_availability_status := ''Unavailable''\<rparr>)"
    using find_map_update [of ol_id "\<lambda>l. l\<lparr>ol_availability_status := ''Unavailable''\<rparr>"
            listing_id listing_id "t_organ_listings s"]
    by (simp add: get_listing_def)
next
  assume "ol_availability_status listing = ''Unavailable''"
  with assms show "request_transport s method listing_id d now
                = (Rendered ''request_transport_unavailable.html'' 400, s)"
    by (simp add: request_transport_def)
qed

text \<open>
  The scenario of the spec: hospital H2 requests listing 1 of H1 (Dallas, TX); a second
  request for the same listing is refused. A destination of a no-break space and a
  next-line control is empty once stripped, and the request is refused.
\<close>

theorem request_transport_creates_witness:
  "get_listing two_orders 1 = Some (example_listing 1 ''Critical'' ''Available'' 100)
   \<and> get_hospital two_orders 2 = Some (example_hospital 2 ''H2'')
   \<and> strip (get_or (f_destination (example_form 2)) []) = ''123 Main St''
   \<and> strip (get_or (f_contact_phone (example_form 2)) []) = ''555-1111''
   \<and> fst (request_transport two_orders POST 1 (example_form 2) 200)
       = Redirect ''order_confirmation'' (Some 3)
   \<and> map (\<lambda>r. (tr_id r, tr_status r, tr_driver_id r, tr_priority_status r, tr_origin r))
       (t_transport_requests (snd (request_transport two_orders POST 1 (example_form 2) 200)))
     = [(1, ''Requested'', None, ''Critical'', ''H1 (Dallas, TX)''),
        (2, ''Assigned'', Some 5, ''Urgent'', ''H1 (Dallas, TX)''),
        (3, ''Requested'', None, ''Critical'', ''H1 (Dallas, TX)'')]
   \<and> fst (request_transport (snd (request_transport two_orders POST 1 (example_form 2) 200))
            POST 1 (example_form 2) 201)
       = Rendered ''request_transport_unavailable.html'' 400
   \<and> request_transport two_orders POST 1
        ((example_form 2)\<lparr>f_destination := Some [CHR 0xA0, CHR 0x85]\<rparr>) 200
       = (Plain ''Delivery address and contact phone are required'' 400, two_orders)"
  using request_transport_creates
          [of two_orders 1 "example_listing 1 ''Critical'' ''Available'' 100" "example_form 2" 2
              "example_hospital 2 ''H2''" 200 POST]
  by (simp add: request_transport_def insert_request_def new_rowid_def get_listing_def
        get_hospital_def get_or_def strip_def is_space_def Let_def two_orders_def
        example_db_def example_listing_def example_request_def example_hospital_def
        example_form_def)

subsection \<open>Missing rows\<close>

text \<open>
  Claim C8, as the code has it. \<^verbatim>\<open>request_transport\<close> aborts with status 404 when no
  listing has the given id. When the listing is Available and the form names a hospital id
  that no hospital has, a POST is answered ``Selected hospital not found'' with status 400.
  Neither changes the database.
\<close>

theorem request_transport_missing_rows:
  "(get_listing s listing_id = None
      \<longrightarrow> request_transport s method listing_id d now = (Aborted 404 ''Listing not found'', s))
   \<and> (\<forall>listing hospital_id.
         get_listing s listing_id = Some listing \<and> ol_availability_status listing = ''Available''
         \<and> f_hospital_id d = Some hospital_id \<and> get_hospital s hospital_id = None
      \<longrightarrow> request_transport s POST listing_id d now = (Plain ''Selected hospital not found'' 400, s))"
  by (simp add: request_transport_def Let_def)

theorem request_transport_missing_rows_witness:
  "get_listing two_orders 8 = None
   \<and> request_transport two_orders POST 8 (example_form 2) 200
       = (Aborted 404 ''Listing not found'', two_orders)
   \<and> get_listing two_orders 1 = Some (example_listing 1 ''Critical'' ''Available'' 100)
   \<and> get_hospital two_orders 9 = None
   \<and> request_transport two_orders POST 1 (example_form 9) 200
       = (Plain ''Selected hospital not found'' 400, two_orders)"
  using request_transport_missing_rows [of two_orders 8 POST "example_form 2" 200]
    request_transport_missing_rows [of two_orders 1 POST "example_form 9" 200]
  by (simp add: get_listing_def get_hospital_def two_orders_def example_db_def
        example_listing_def example_hospital_def example_form_def)

text \<open>
  The spec has both cases answered with status 404. Hospital 9 does not exist, and the
  request that names it is answered with status 400.
\<close>

theorem missing_hospital_counterexample:
  "get_hospital two_orders 9 = None
   \<and> status_code (fst (request_transport two_orders POST 1 (example_form 9) 200)) \<noteq> 404"
  by (simp add: request_transport_def get_listing_def get_hospital_def Let_def two_orders_def
        example_db_def example_listing_def example_hospital_def example_form_def)

subsection \<open>The orderings of the two views\<close>

text \<open>
  Claim C9. The catalog lists listings (all of them when no filter is given) by the rank
  Emergency 1, Critical 2, Urgent 3, any other 4, and within a rank the newest first. The
  available orders of the driver portal are exactly the requests that are Requested and
  have no driver, by the rank Emergency 1, Urgent 2, Critical 3, any other 4, and within a
  rank the oldest first.
\<close>

theorem list_view_orderings:
  "sorted_wrt (\<lambda>a b. catalog_rank (ol_priority_status a) < catalog_rank (ol_priority_status b)
                 \<or> (catalog_rank (ol_priority_status a) = catalog_rank (ol_priority_status b)
                    \<and> ol_created_at b \<le> ol_created_at a))
     (organ_listings s arg_q arg_type arg_availability)
   \<and> set (organ_listings s arg_q arg_type arg_availability) \<subseteq> set (t_organ_listings s)
   \<and> mset (organ_listings s None None None) = mset (t_organ_listings s)
   \<and> catalog_rank ''Emergency'' = 1 \<and> catalog_rank ''Critical'' = 2 \<and> catalog_rank ''Urgent'' = 3
   \<and> (p \<notin> {''Emergency'', ''Critical'', ''Urgent''} \<longrightarrow> catalog_rank p = 4)
   \<and> sorted_wrt (\<lambda>a b. available_rank (tr_priority_status a) < available_rank (tr_priority_status b)
                 \<or> (available_rank (tr_priority_status a) = available_rank (tr_priority_status b)
                    \<and> tr_created_at a \<le> tr_created_at b))
       (map fst (available_orders s))
   \<and> mset (map fst (available_orders s))
       = mset (filter (\<lambda>r. tr_status r = ''Requested'' \<and> tr_driver_id r = None)
                 (t_transport_requests s))
   \<and> available_rank ''Emergency'' = 1 \<and> available_rank ''Urgent'' = 2 \<and> available_rank ''Critical'' = 3
   \<and> (p \<notin> {''Emergency'', ''Urgent'', ''Critical''} \<longrightarrow> available_rank p = 4)"
proof -
  have c1: "sorted_wrt (\<lambda>a b. catalog_rank (ol_priority_status a) < catalog_rank (ol_priority_status b)
                 \<or> (catalog_rank (ol_priority_status a) = catalog_rank (ol_priority_status b)
                    \<and> ol_created_at b \<le> ol_created_at a))
     (organ_listings s arg_q arg_type arg_availability)"
    using sorted_wrt_sort_key_pair
            [of "\<lambda>l. catalog_rank (ol_priority_status l)" "\<lambda>l. - ol_created_at l"]
    by (simp add: organ_listings_def Let_def)
  have c2: "set (organ_listings s arg_q arg_type arg_availability) \<subseteq> set (t_organ_listings s)"
    by (auto simp: organ_listings_def Let_def)
  have c3: "mset (organ_listings s None None None) = mset (t_organ_listings s)"
    by (simp add: organ_listings_def Let_def get_or_def strip_def lower_def catalog_where_def)
  have c4: "catalog_rank ''Emergency'' = 1 \<and> catalog_rank ''Critical'' = 2 \<and> catalog_rank ''Urgent'' = 3
     \<and> (p \<notin> {''Emergency'', ''Critical'', ''Urgent''} \<longrightarrow> catalog_rank p = 4)"
    by (simp add: catalog_rank_def)
  have a1: "sorted_wrt (\<lambda>a b. available_rank (tr_priority_status a) < available_rank (tr_priority_status b)
                 \<or> (available_rank (tr_priority_status a) = available_rank (tr_priority_status b)
                    \<and> tr_created_at a \<le> tr_created_at b))
       (map fst (available_orders s))"
    using sorted_wrt_sort_key_pair
            [of "\<lambda>r. available_rank (tr_priority_status r)" tr_created_at]
    by (simp add: available_orders_def o_def)
  have a2: "mset (map fst (available_orders s))
       = mset (filter (\<lambda>r. tr_status r = ''Requested'' \<and> tr_driver_id r = None)
                 (t_transport_requests s))"
    by (simp add: available_orders_def o_def)
  have a3: "available_rank ''Emergency'' = 1 \<and> available_rank ''Urgent'' = 2 \<and> available_rank ''Critical'' = 3
     \<and> (p \<notin> {''Emergency'', ''Urgent'', ''Critical''} \<longrightarrow> available_rank p = 4)"
    by (simp add: available_rank_def)
  from c1 c2 c3 c4 a1 a2 a3 show ?thesis by blast
qed

text \<open>
  In \<open>cat_db\<close> the catalog puts the Critical listings 3 and 2 (newest first) before the
  Urgent listing 1; the driver's view puts the Urgent requests 3 and 2 (oldest first)
  before the Critical request 1, and leaves out request 4, which is Assigned.
\<close>

theorem list_view_orderings_witness:
  "map ol_id (organ_listings cat_db None None None) = [4, 3, 2, 1, 5]
   \<and> map (tr_id \<circ> fst) (available_orders cat_db) = [5, 3, 2, 1]
   \<and> ''Normal'' \<notin> {''Emergency'', ''Critical'', ''Urgent''}
   \<and> catalog_rank ''Normal'' = 4 \<and> available_rank ''Normal'' = 4"
  using list_view_orderings [of cat_db None None None "''Normal''"]
  by (simp add: organ_listings_def available_orders_def cat_db_def example_db_def
        example_listing_def example_request_def catalog_where_def catalog_rank_def
        available_rank_def get_or_def Let_def strip_def lower_def)

subsection \<open>The driver of a status update\<close>

text \<open>
  Claim C10. \<^verbatim>\<open>driver_update_status\<close> uses the driver id of the form only to build the
  redirect: with any two driver ids (other than 0, which the handler takes for missing)
  the database afterwards is the same and the answers differ at most in the redirect's
  target. Whatever driver the order has, any driver id updates an order that is not
  Delivered to any allowed status, and the order's driver afterwards is the one it had,
  or none after a reversion to Requested: never the one of the form.
\<close>

theorem update_status_ignores_driver:
  assumes "d1 \<noteq> 0" and "d2 \<noteq> 0"
  shows "snd (driver_update_status s k (Some d1) new_status now) =
         snd (driver_update_status s k (Some d2) new_status now)
       \<and> (fst (driver_update_status s k (Some d1) new_status now) =
            fst (driver_update_status s k (Some d2) new_status now)
          \<or> fst (driver_update_status s k (Some d1) new_status now) = Redirect ''driver_portal'' (Some d1)
            \<and> fst (driver_update_status s k (Some d2) new_status now) = Redirect ''driver_portal'' (Some d2))
       \<and> (\<forall>order st. get_order s k = Some order \<and> tr_status order \<noteq> ''Delivered''
              \<and> new_status = Some st \<and> st \<in> allowed_statuses
            \<longrightarrow> (\<exists>order'. get_order (snd (driver_update_status s k (Some d1) new_status now)) k = Some order'
                   \<and> tr_status order' = st
                   \<and> tr_driver_id order' = (if st = ''Requested'' then None else tr_driver_id order)))"
proof (intro conjI allI impI)
  show "snd (driver_update_status s k (Some d1) new_status now) =
        snd (driver_update_status s k (Some d2) new_status now)"
    using assms by (simp add: driver_update_status_def split: option.splits)
next
  show "fst (driver_update_status s k (Some d1) new_status now) =
            fst (driver_update_status s k (Some d2) new_status now)
          \<or> fst (driver_update_status s k (Some d1) new_status now) = Redirect ''driver_portal'' (Some d1)
            \<and> fst (driver_update_status s k (Some d2) new_status now) = Redirect ''driver_portal'' (Some d2)"
    using assms by (simp add: driver_update_status_def split: option.splits)
next
  fix order st
  assume h: "get_order s k = Some order \<and> tr_status order \<noteq> ''Delivered''
              \<and> new_status = Some st \<and> st \<in> allowed_statuses"
  then have "st \<noteq> []" by (auto simp: allowed_statuses_def)
  with h assms(1)
  show "\<exists>order'. get_order (snd (driver_update_status s k (Some d1) new_status now)) k = Some order'
                   \<and> tr_status order' = st
                   \<and> tr_driver_id order' = (if st = ''Requested'' then None else tr_driver_id order)"
    by (simp add: driver_update_status_def get_order_update_requests)
qed

text \<open>Driver 7 delivers request 2, which is assigned to driver 5.\<close>

theorem update_status_ignores_driver_witness:
  "(7::int) \<noteq> 0 \<and> (5::int) \<noteq> 0
   \<and> map_option tr_driver_id (get_order two_orders 2) = Some (Some 5)
   \<and> snd (driver_update_status two_orders 2 (Some 7) (Some ''Delivered'') 50)
       = snd (driver_update_status two_orders 2 (Some 5) (Some ''Delivered'') 50)
   \<and> map_option (\<lambda>r. (tr_status r, tr_driver_id r))
       (get_order (snd (driver_update_status two_orders 2 (Some 7) (Some ''Delivered'') 50)) 2)
     = Some (''Delivered'', Some 5)"
  using update_status_ignores_driver [of 7 5 two_orders 2 "Some ''Delivered''" 50]
  by (simp add: driver_update_status_def allowed_statuses_def get_order_def update_requests_def
        two_orders_def example_db_def example_request_def)

end
